theory Spec2Isabelle
  imports Complex_Main "HOL-Library.Sublist"
begin

section \<open>Python values\<close>

text \<open>
  The scorer of \<^verbatim>\<open>run.py\<close> reads a dictionary whose values are dynamically typed. The
  values modelled are the scalar ones a scraped or JSON-decoded record holds: \<^verbatim>\<open>None\<close>,
  booleans, unbounded integers, floats and strings. Every Python exception that the code can
  meet on such values is a value of \<open>exn\<close>; a function of the source that may raise returns
  \<open>exn + 'a\<close>, with \<open>Inl\<close> for the exception.

  Floats: a finite double is idealised as the exact rational it denotes, so the rounding
  error of IEEE arithmetic is not modelled; the infinities and NaN are values of their own,
  with Python's comparison and \<^verbatim>\<open>min\<close>/\<^verbatim>\<open>max\<close> behaviour on them. Strings are byte strings
  (UTF-8); case conversion and whitespace stripping act on the ASCII range only.
\<close>

datatype exn = AttributeError | TypeError | ValueError | OverflowError | OtherError string

datatype pyfloat = Fin rat | PInf | NInf | NaN

datatype pyval = PNone | PBool bool | PInt int | PFloat pyfloat | PStr string

fun truthy :: "pyval \<Rightarrow> bool" where
  "truthy PNone = False"
| "truthy (PBool b) = b"
| "truthy (PInt i) = (i \<noteq> 0)"
| "truthy (PFloat f) = (f \<noteq> Fin 0)"
| "truthy (PStr s) = (s \<noteq> [])"

definition py_or :: "pyval \<Rightarrow> pyval \<Rightarrow> pyval" where
  \<comment> \<open>\<^verbatim>\<open>a or b\<close>: the first operand when it is truthy, the second otherwise\<close>
  "py_or a b = (if truthy a then a else b)"

type_synonym row = "string \<Rightarrow> pyval option"

definition row_get :: "row \<Rightarrow> string \<Rightarrow> pyval" where
  \<comment> \<open>\<^verbatim>\<open>row.get(k)\<close>: \<^verbatim>\<open>None\<close> for a missing key\<close>
  "row_get r k = (case r k of None \<Rightarrow> PNone | Some v \<Rightarrow> v)"

subsection \<open>Strings\<close>

definition lower_char :: "char \<Rightarrow> char" where
  "lower_char c =
     (let n = (of_char c :: nat) in if 65 \<le> n \<and> n \<le> 90 then char_of (n + 32) else c)"

definition lower :: "string \<Rightarrow> string" where
  "lower s = map lower_char s"

definition is_space :: "char \<Rightarrow> bool" where
  \<comment> \<open>the ASCII characters for which \<^verbatim>\<open>str.isspace\<close> holds\<close>
  "is_space c = (let n = (of_char c :: nat) in (9 \<le> n \<and> n \<le> 13) \<or> (28 \<le> n \<and> n \<le> 32))"

definition strip :: "string \<Rightarrow> string" where
  "strip s = rev (dropWhile is_space (rev (dropWhile is_space s)))"

definition py_lower :: "pyval \<Rightarrow> exn + string" where
  \<comment> \<open>\<^verbatim>\<open>v.lower()\<close>: only a string has the method\<close>
  "py_lower v = (case v of PStr s \<Rightarrow> Inr (lower s) | _ \<Rightarrow> Inl AttributeError)"

definition py_strip :: "pyval \<Rightarrow> exn + string" where
  "py_strip v = (case v of PStr s \<Rightarrow> Inr (strip s) | _ \<Rightarrow> Inl AttributeError)"

definition digit_char :: "nat \<Rightarrow> char" where
  "digit_char d = char_of (48 + d)"

fun show_nat :: "nat \<Rightarrow> string" where
  "show_nat n = (if n < 10 then [digit_char n] else show_nat (n div 10) @ [digit_char (n mod 10)])"

declare show_nat.simps [simp del]

definition show_int :: "int \<Rightarrow> string" where
  \<comment> \<open>\<^verbatim>\<open>str(i)\<close> of an integer, as an f-string interpolates it\<close>
  "show_int i = (if i < 0 then CHR ''-'' # show_nat (nat (- i)) else show_nat (nat i))"

subsection \<open>Floats\<close>

fun fadd :: "pyfloat \<Rightarrow> pyfloat \<Rightarrow> pyfloat" where
  "fadd (Fin a) (Fin b) = Fin (a + b)"
| "fadd NaN _ = NaN"
| "fadd _ NaN = NaN"
| "fadd PInf NInf = NaN"
| "fadd NInf PInf = NaN"
| "fadd PInf _ = PInf"
| "fadd _ PInf = PInf"
| "fadd NInf _ = NInf"
| "fadd _ NInf = NInf"

fun fdiv :: "pyfloat \<Rightarrow> rat \<Rightarrow> pyfloat" where
  \<comment> \<open>division by one of the positive float literals of the source\<close>
  "fdiv (Fin a) c = Fin (a / c)"
| "fdiv x c = x"

fun fmul :: "pyfloat \<Rightarrow> rat \<Rightarrow> pyfloat" where
  \<comment> \<open>multiplication by one of the positive literals of the source\<close>
  "fmul (Fin a) c = Fin (a * c)"
| "fmul x c = x"

fun flt :: "pyfloat \<Rightarrow> pyfloat \<Rightarrow> bool" where
  \<comment> \<open>\<^verbatim>\<open>a < b\<close> on floats: false as soon as one side is NaN\<close>
  "flt NaN _ = False"
| "flt _ NaN = False"
| "flt (Fin a) (Fin b) = (a < b)"
| "flt (Fin a) PInf = True"
| "flt (Fin a) NInf = False"
| "flt PInf _ = False"
| "flt NInf NInf = False"
| "flt NInf _ = True"

definition py_min :: "pyfloat \<Rightarrow> pyfloat \<Rightarrow> pyfloat" where
  \<comment> \<open>\<^verbatim>\<open>min(a, b)\<close> keeps the first argument unless the second is smaller\<close>
  "py_min a b = (if flt b a then b else a)"

definition py_max :: "pyfloat \<Rightarrow> pyfloat \<Rightarrow> pyfloat" where
  \<comment> \<open>\<^verbatim>\<open>max(a, b)\<close> keeps the first argument unless the second is greater\<close>
  "py_max a b = (if flt a b then b else a)"

definition round_half_even :: "rat \<Rightarrow> int" where
  "round_half_even q =
     (let f = \<lfloor>q\<rfloor>; d = q - of_int f
      in if d < 1 / 2 then f else if 1 / 2 < d then f + 1 else if even f then f else f + 1)"

definition py_round :: "pyfloat \<Rightarrow> exn + int" where
  \<comment> \<open>\<^verbatim>\<open>int(round(x))\<close>: \<^verbatim>\<open>round\<close> raises on NaN and on an infinity\<close>
  "py_round x = (case x of Fin q \<Rightarrow> Inr (round_half_even q)
                 | NaN \<Rightarrow> Inl ValueError | _ \<Rightarrow> Inl OverflowError)"

definition float_overflow_bound :: int where
  \<comment> \<open>the least magnitude of an integer that no longer converts to a double\<close>
  "float_overflow_bound = 2 ^ 1024 - 2 ^ 970"

definition int_to_float :: "int \<Rightarrow> exn + pyfloat" where
  "int_to_float i = (if \<bar>i\<bar> < float_overflow_bound then Inr (Fin (of_int i)) else Inl OverflowError)"

definition bool_to_int :: "bool \<Rightarrow> int" where
  "bool_to_int b = (if b then 1 else 0)"

definition trunc :: "rat \<Rightarrow> int" where
  \<comment> \<open>\<^verbatim>\<open>int(x)\<close> of a finite float rounds towards zero\<close>
  "trunc q = (if 0 \<le> q then \<lfloor>q\<rfloor> else \<lceil>q\<rceil>)"

fun num_ge :: "pyval \<Rightarrow> rat \<Rightarrow> exn + bool" where
  \<comment> \<open>\<^verbatim>\<open>v >= c\<close> for a numeric literal \<open>c\<close>: numbers compare exactly, anything else raises\<close>
  "num_ge (PInt i) c = Inr (c \<le> of_int i)"
| "num_ge (PBool b) c = Inr (c \<le> of_int (bool_to_int b))"
| "num_ge (PFloat (Fin q)) c = Inr (c \<le> q)"
| "num_ge (PFloat PInf) c = Inr True"
| "num_ge (PFloat NInf) c = Inr False"
| "num_ge (PFloat NaN) c = Inr False"
| "num_ge (PStr s) c = Inl TypeError"
| "num_ge PNone c = Inl TypeError"

section \<open>The environment of the module\<close>

text \<open>
  What \<^verbatim>\<open>run.py\<close> takes from outside the repository is a parameter of the model: the flag
  \<^verbatim>\<open>_WEBCHECK_AVAILABLE\<close>, the library functions \<^verbatim>\<open>urlparse\<close>, \<^verbatim>\<open>requests.get\<close> and
  \<^verbatim>\<open>BeautifulSoup\<close> (each may raise), and the parsers behind \<^verbatim>\<open>float(s)\<close> and \<^verbatim>\<open>int(s)\<close> of a
  string. Of a parsed page the model keeps what the probe asks of it: whether a \<^verbatim>\<open>meta\<close>
  element named viewport or description is found, and the \<^verbatim>\<open>href\<close> values of its anchors in
  document order.
\<close>

record parse_result =
  scheme :: string
  netloc :: string
  path :: string

record response =
  status_code :: int
  resp_text :: string

record soup =
  meta_viewport :: bool
  meta_description :: bool
  anchor_hrefs :: "string list"

record env =
  webcheck_available :: bool
  urlparse :: "string \<Rightarrow> exn + parse_result"
  requests_get :: "string \<Rightarrow> int \<Rightarrow> exn + response"
  BeautifulSoup :: "string \<Rightarrow> exn + soup"
  float_of_str :: "string \<Rightarrow> pyfloat option"
  int_of_str :: "string \<Rightarrow> int option"

definition py_float :: "env \<Rightarrow> pyval \<Rightarrow> exn + pyfloat" where
  \<comment> \<open>\<^verbatim>\<open>float(v)\<close>\<close>
  "py_float env v =
     (case v of
        PNone \<Rightarrow> Inl TypeError
      | PBool b \<Rightarrow> int_to_float (bool_to_int b)
      | PInt i \<Rightarrow> int_to_float i
      | PFloat f \<Rightarrow> Inr f
      | PStr s \<Rightarrow> (case float_of_str env s of None \<Rightarrow> Inl ValueError | Some f \<Rightarrow> Inr f))"

definition py_int :: "env \<Rightarrow> pyval \<Rightarrow> exn + int" where
  \<comment> \<open>\<^verbatim>\<open>int(v)\<close>\<close>
  "py_int env v =
     (case v of
        PNone \<Rightarrow> Inl TypeError
      | PBool b \<Rightarrow> Inr (bool_to_int b)
      | PInt i \<Rightarrow> Inr i
      | PFloat f \<Rightarrow> (case f of Fin q \<Rightarrow> Inr (trunc q) | NaN \<Rightarrow> Inl ValueError | _ \<Rightarrow> Inl OverflowError)
      | PStr s \<Rightarrow> (case int_of_str env s of None \<Rightarrow> Inl ValueError | Some i \<Rightarrow> Inr i))"

section \<open>The site quality probe: \<^verbatim>\<open>quick_site_check\<close>\<close>

datatype details = NoDetails | HttpStatus int | SiteScore int | ErrorText exn

fun contact_loop :: "string list \<Rightarrow> bool" where
  \<comment> \<open>the loop over \<^verbatim>\<open>soup.find_all("a", href=True)\<close>, left at the first contact link\<close>
  "contact_loop [] = False"
| "contact_loop (a # rest) =
     (let href = lower a
      in if sublist ''mailto:'' href \<or> sublist ''contact'' href then True else contact_loop rest)"

definition has_analytics :: "string \<Rightarrow> bool" where
  "has_analytics html =
     (sublist ''gtag('' html \<or> sublist ''analytics.js'' html
      \<or> sublist [CHR ''g'', CHR ''a'', CHR ''('', CHR 0x27] html
      \<or> sublist ''google-analytics'' html)"

definition quick_site_check_try :: "env \<Rightarrow> string \<Rightarrow> int \<Rightarrow> exn + (int \<times> details)" where
  \<comment> \<open>the body of the \<^verbatim>\<open>try\<close> block: an \<open>Inl\<close> is an exception raised inside it\<close>
  "quick_site_check_try env url timeout =
     (case urlparse env url of
        Inl e \<Rightarrow> Inl e
      | Inr parsed \<Rightarrow>
         (let score0 = (if scheme parsed = ''https'' then 4 else 0)
          in case requests_get env url timeout of
               Inl e \<Rightarrow> Inl e
             | Inr resp \<Rightarrow>
                 if status_code resp \<noteq> 200 then Inr (0, HttpStatus (status_code resp))
                 else
                  (let html = resp_text resp
                   in case BeautifulSoup env html of
                        Inl e \<Rightarrow> Inl e
                      | Inr sp \<Rightarrow>
                         (let score1 = score0 + (if meta_viewport sp then 4 else 0);
                              score2 = score1 + (if meta_description sp then 3 else 0);
                              contact = contact_loop (anchor_hrefs sp);
                              score3 = score2 + (if contact then 4 else 0);
                              score4 = score3 + (if has_analytics html then 5 else 0)
                          in Inr (min score4 20, SiteScore score4)))))"

definition quick_site_check :: "env \<Rightarrow> string \<Rightarrow> int \<Rightarrow> exn + (int \<times> details)" where
  "quick_site_check env url timeout =
     (if \<not> webcheck_available env \<or> url = [] then Inr (0, NoDetails)
      else case quick_site_check_try env url timeout of
             Inl e \<Rightarrow> Inr (0, ErrorText e)
           | Inr r \<Rightarrow> Inr r)"

section \<open>The lead scorer: \<^verbatim>\<open>_compute_lead_score\<close>\<close>

definition en_dash :: string where
  \<comment> \<open>the UTF-8 bytes of U+2013, the dash of the reason strings\<close>
  "en_dash = [CHR 0xE2, CHR 0x80, CHR 0x93]"

definition BRAND_KEYWORDS :: "string list" where
  "BRAND_KEYWORDS =
     [''kajaria'', ''somany'', ''nitco'', ''varmora'',
      ''orientbell'', ''experience centre'', ''boutique'', ''infinity'']"

definition reason_brand_name :: string where
  "reason_brand_name = ''DISQUALIFIED '' @ en_dash @ '' Brand Showroom (name match)''"

definition reason_brand_website :: string where
  "reason_brand_website = ''DISQUALIFIED '' @ en_dash @ '' Brand Showroom (website match)''"

definition reason_offline :: string where
  "reason_offline = ''DISQUALIFIED '' @ en_dash @ '' Strong Offline Presence''"

definition reason_computed :: string where
  "reason_computed = ''Score computed from maps signals''"

fun brand_loop :: "string list \<Rightarrow> string \<Rightarrow> string \<Rightarrow> (int \<times> string) option" where
  \<comment> \<open>the loop over the brand keywords: \<open>Some\<close> is its early return\<close>
  "brand_loop [] name website = None"
| "brand_loop (brand # rest) name website =
     (if sublist brand name then Some (0, reason_brand_name)
      else if website \<noteq> [] \<and> sublist brand (lower website) then Some (0, reason_brand_website)
      else brand_loop rest name website)"

definition offline_check :: "bool \<Rightarrow> pyval \<Rightarrow> pyval \<Rightarrow> exn + bool" where
  \<comment> \<open>\<^verbatim>\<open>(not has_website) and rating >= 4.2 and reviews >= 50\<close>, evaluated left to right\<close>
  "offline_check has_website rating reviews =
     (if has_website then Inr False
      else case num_ge rating (21 / 5) of
             Inl e \<Rightarrow> Inl e
           | Inr False \<Rightarrow> Inr False
           | Inr True \<Rightarrow> num_ge reviews 50)"

definition site_score_of :: "env \<Rightarrow> string \<Rightarrow> int" where
  \<comment> \<open>the guarded call of the probe: any exception leaves \<^verbatim>\<open>site_score = 0\<close>\<close>
  "site_score_of env website =
     (if website \<noteq> [] \<and> webcheck_available env
      then (case quick_site_check env website 5 of Inl e \<Rightarrow> 0 | Inr (s, d) \<Rightarrow> s)
      else 0)"

definition add_website :: "env \<Rightarrow> bool \<Rightarrow> string \<Rightarrow> pyfloat \<Rightarrow> pyfloat" where
  "add_website env has_website website score =
     (if has_website
      then fadd (fadd score (Fin 10)) (Fin (of_int (min (site_score_of env website) 20)))
      else score)"

definition rating_term :: "env \<Rightarrow> pyval \<Rightarrow> exn + pyfloat" where
  \<comment> \<open>\<^verbatim>\<open>(float(rating) / 5.0) * 20\<close>\<close>
  "rating_term env rating =
     (case py_float env rating of Inl e \<Rightarrow> Inl e | Inr f \<Rightarrow> Inr (fmul (fdiv f 5) 20))"

definition add_rating :: "env \<Rightarrow> pyval \<Rightarrow> pyfloat \<Rightarrow> pyfloat" where
  "add_rating env rating score =
     (case rating_term env rating of Inl e \<Rightarrow> score | Inr t \<Rightarrow> fadd score t)"

definition reviews_term :: "env \<Rightarrow> pyval \<Rightarrow> exn + pyfloat" where
  \<comment> \<open>\<^verbatim>\<open>min((float(reviews) / 100.0) * 20.0, 20.0)\<close>\<close>
  "reviews_term env reviews =
     (case py_float env reviews of
        Inl e \<Rightarrow> Inl e
      | Inr reviews_val \<Rightarrow> Inr (py_min (fmul (fdiv reviews_val 100) 20) (Fin 20)))"

definition add_reviews :: "env \<Rightarrow> pyval \<Rightarrow> pyfloat \<Rightarrow> pyfloat" where
  "add_reviews env reviews score =
     (case reviews_term env reviews of Inl e \<Rightarrow> score | Inr t \<Rightarrow> fadd score t)"

definition add_phone :: "string \<Rightarrow> pyfloat \<Rightarrow> pyfloat" where
  "add_phone phone score = (if phone \<noteq> [] then fadd score (Fin 10) else score)"

definition photos_term :: "env \<Rightarrow> pyval \<Rightarrow> exn + pyfloat" where
  \<comment> \<open>\<^verbatim>\<open>min((int(photos) / 10.0) * 10.0, 10.0)\<close>\<close>
  "photos_term env photos =
     (case py_int env photos of
        Inl e \<Rightarrow> Inl e
      | Inr photos_val \<Rightarrow>
         (case int_to_float photos_val of
            Inl e \<Rightarrow> Inl e
          | Inr f \<Rightarrow> Inr (py_min (fmul (fdiv f 10) 10) (Fin 10))))"

definition add_photos :: "env \<Rightarrow> pyval \<Rightarrow> pyfloat \<Rightarrow> pyfloat" where
  "add_photos env photos score =
     (case photos_term env photos of Inl e \<Rightarrow> score | Inr t \<Rightarrow> fadd score t)"

definition add_category :: "string \<Rightarrow> pyfloat \<Rightarrow> pyfloat" where
  "add_category category score =
     (if list_ex (\<lambda>k. sublist k category) [''tile'', ''tiles'', ''ceramic'']
      then fadd score (Fin 10) else score)"

definition accumulate ::
  "env \<Rightarrow> pyval \<Rightarrow> pyval \<Rightarrow> bool \<Rightarrow> string \<Rightarrow> string \<Rightarrow> pyval \<Rightarrow> string \<Rightarrow> pyfloat" where
  \<comment> \<open>the running total of lines 63 to 108, from \<^verbatim>\<open>score = 0.0\<close>\<close>
  "accumulate env rating reviews has_website website phone photos category =
     add_category category
       (add_photos env photos
         (add_phone phone
           (add_reviews env reviews
             (add_rating env rating
               (add_website env has_website website (Fin 0))))))"

definition clamp_score :: "pyfloat \<Rightarrow> pyfloat" where
  \<comment> \<open>\<^verbatim>\<open>max(0.0, min(score, 100.0))\<close>\<close>
  "clamp_score score = py_max (Fin 0) (py_min score (Fin 100))"

definition score_fields ::
  "env \<Rightarrow> string \<Rightarrow> pyval \<Rightarrow> pyval \<Rightarrow> bool \<Rightarrow> string \<Rightarrow> string \<Rightarrow> pyval \<Rightarrow> string
     \<Rightarrow> exn + (int \<times> string)" where
  \<comment> \<open>lines 52 to 113: the function after its eight local variables are bound\<close>
  "score_fields env name rating reviews has_website website phone photos category =
     (case brand_loop BRAND_KEYWORDS name website of
        Some r \<Rightarrow> Inr r
      | None \<Rightarrow>
         (case offline_check has_website rating reviews of
            Inl e \<Rightarrow> Inl e
          | Inr True \<Rightarrow> Inr (0, reason_offline)
          | Inr False \<Rightarrow>
             (case py_round (clamp_score
                     (accumulate env rating reviews has_website website phone photos category)) of
                Inl e \<Rightarrow> Inl e
              | Inr n \<Rightarrow> Inr (n, reason_computed))))"

definition compute_lead_score :: "env \<Rightarrow> row \<Rightarrow> exn + (int \<times> string)" where
  "compute_lead_score env row =
     (case py_lower (py_or (row_get row ''business_name'') (PStr [])) of
        Inl e \<Rightarrow> Inl e
      | Inr name \<Rightarrow>
         (let rating = py_or (row_get row ''rating'') (PInt 0);
              reviews = py_or (row_get row ''reviews'') (PInt 0);
              has_website = truthy (row_get row ''has_website'')
          in case py_strip (py_or (row_get row ''website'') (PStr [])) of
               Inl e \<Rightarrow> Inl e
             | Inr website \<Rightarrow>
                (case py_strip (py_or (py_or (row_get row ''phone'') (row_get row ''phone_number''))
                                  (PStr [])) of
                   Inl e \<Rightarrow> Inl e
                 | Inr phone \<Rightarrow>
                    (let photos = py_or (py_or (row_get row ''photos'') (row_get row ''photo_count''))
                                    (PInt 0)
                     in case py_lower (py_or (row_get row ''category'') (PStr [])) of
                          Inl e \<Rightarrow> Inl e
                        | Inr category \<Rightarrow>
                            score_fields env name rating reviews has_website website phone
                              photos category))))"

section \<open>The classifier: \<^verbatim>\<open>classify_lead\<close>\<close>

definition category_high :: string where
  "category_high = ''PURSUE '' @ en_dash @ '' High Priority''"

definition category_medium :: string where
  "category_medium = ''POTENTIAL '' @ en_dash @ '' Medium Priority''"

definition category_low :: string where
  "category_low = ''LOW '' @ en_dash @ '' Low Priority''"

definition explanation :: "string \<Rightarrow> int \<Rightarrow> string \<Rightarrow> string" where
  \<comment> \<open>the f-string \<^verbatim>\<open>"<tier> opportunity (score={score}). {reason}"\<close>\<close>
  "explanation tier score reason =
     tier @ '' opportunity (score='' @ show_int score @ ''). '' @ reason"

definition classify_lead :: "env \<Rightarrow> row \<Rightarrow> exn + (string \<times> string \<times> int)" where
  "classify_lead env row =
     (case compute_lead_score env row of
        Inl e \<Rightarrow> Inl e
      | Inr (score, reason) \<Rightarrow>
          if score = 0 \<and> prefix ''DISQUALIFIED'' reason then Inr (reason, reason, score)
          else if 70 \<le> score then Inr (category_high, explanation ''High'' score reason, score)
          else if 40 \<le> score then Inr (category_medium, explanation ''Medium'' score reason, score)
          else Inr (category_low, explanation ''Low'' score reason, score))"

section \<open>The link filter of the scraper: \<^verbatim>\<open>_valid_website_href\<close>\<close>





section \<open>A reference environment\<close>

text \<open>
  Concrete evaluations need concrete library functions. \<open>urlparse_ref\<close> follows
  \<^verbatim>\<open>urllib.parse.urlsplit\<close> on ASCII URLs without \<^verbatim>\<open>;\<close> parameters: the scheme is the part
  before the first colon when it starts with a letter and consists of scheme characters, the
  network location follows \<^verbatim>\<open>//\<close> up to the next \<^verbatim>\<open>/\<close>, \<^verbatim>\<open>?\<close> or \<^verbatim>\<open>#\<close>, a network location
  with one square bracket and not the other raises, and the path ends at the first \<^verbatim>\<open>?\<close> or
  \<^verbatim>\<open>#\<close>. \<open>stub_env\<close> is a deterministic fake of the network: one page that is served, one
  that answers 404, and a connection error for every other URL; its string parsers reject
  every string, and it is used below with non-numeric strings only.
\<close>

definition is_alpha :: "char \<Rightarrow> bool" where
  "is_alpha c = (let n = (of_char c :: nat) in (65 \<le> n \<and> n \<le> 90) \<or> (97 \<le> n \<and> n \<le> 122))"

definition scheme_char :: "char \<Rightarrow> bool" where
  "scheme_char c =
     (let n = (of_char c :: nat)
      in is_alpha c \<or> (48 \<le> n \<and> n \<le> 57) \<or> c = CHR ''+'' \<or> c = CHR ''-'' \<or> c = CHR ''.'')"

definition split_scheme :: "string \<Rightarrow> string \<times> string" where
  "split_scheme url =
     (let pre = takeWhile (\<lambda>c. c \<noteq> CHR '':'') url
      in if length pre < length url \<and> pre \<noteq> [] \<and> is_alpha (hd pre) \<and> list_all scheme_char pre
         then (lower pre, drop (length pre + 1) url)
         else ([], url))"

definition netloc_end :: "char \<Rightarrow> bool" where
  "netloc_end c = (c = CHR ''/'' \<or> c = CHR ''?'' \<or> c = CHR ''#'')"

definition path_end :: "char \<Rightarrow> bool" where
  "path_end c = (c = CHR ''?'' \<or> c = CHR ''#'')"

definition urlparse_ref :: "string \<Rightarrow> exn + parse_result" where
  "urlparse_ref url =
     (let (sch, rest) = split_scheme url;
          (nl, rest') = (if take 2 rest = ''//''
                         then (takeWhile (\<lambda>c. \<not> netloc_end c) (drop 2 rest),
                               dropWhile (\<lambda>c. \<not> netloc_end c) (drop 2 rest))
                         else ([], rest))
      in if (CHR ''['' \<in> set nl) \<noteq> (CHR '']'' \<in> set nl) then Inl ValueError
         else Inr \<lparr>scheme = sch, netloc = nl, path = takeWhile (\<lambda>c. \<not> path_end c) rest'\<rparr>)"

definition stub_html :: string where
  "stub_html = ''<html><head><script>gtag(1)</script></head><body>tiles</body></html>''"

definition stub_env :: env where
  "stub_env =
     \<lparr>webcheck_available = True,
      urlparse = urlparse_ref,
      requests_get = (\<lambda>url timeout.
         if url = ''https://example.com'' then Inr \<lparr>status_code = 200, resp_text = stub_html\<rparr>
         else if url = ''https://example.com/missing'' then Inr \<lparr>status_code = 404, resp_text = []\<rparr>
         else Inl (OtherError ''ConnectionError'')),
      BeautifulSoup = (\<lambda>html.
         Inr \<lparr>meta_viewport = True, meta_description = False,
              anchor_hrefs = [''/about'', ''/Contact-Us'']\<rparr>),
      float_of_str = (\<lambda>s. None),
      int_of_str = (\<lambda>s. None)\<rparr>"

section \<open>Vocabulary of the properties\<close>

text \<open>
  A text field is well-typed when it is absent, falsy or a string: these are the values
  on which \<^verbatim>\<open>(row.get(k) or "").lower()\<close> does not raise. Of the two phone fields the one
  that \<^verbatim>\<open>row.get("phone") or row.get("phone_number")\<close> selects is the one that counts. The eight local variables of the
  scorer are named as functions of the record.
\<close>

definition text_of :: "pyval \<Rightarrow> string" where
  "text_of v = (case v of PStr s \<Rightarrow> s | _ \<Rightarrow> [])"

definition is_text :: "pyval \<Rightarrow> bool" where
  "is_text v = (case v of PStr s \<Rightarrow> True | _ \<Rightarrow> \<not> truthy v)"

definition text_fields_ok :: "row \<Rightarrow> bool" where
  "text_fields_ok row =
     (is_text (row_get row ''business_name'') \<and> is_text (row_get row ''website'')
      \<and> is_text (py_or (row_get row ''phone'') (row_get row ''phone_number''))
      \<and> is_text (row_get row ''category''))"

definition name_of :: "row \<Rightarrow> string" where
  "name_of row = lower (text_of (row_get row ''business_name''))"

definition rating_of :: "row \<Rightarrow> pyval" where
  "rating_of row = py_or (row_get row ''rating'') (PInt 0)"

definition reviews_of :: "row \<Rightarrow> pyval" where
  "reviews_of row = py_or (row_get row ''reviews'') (PInt 0)"

definition has_website_of :: "row \<Rightarrow> bool" where
  "has_website_of row = truthy (row_get row ''has_website'')"

definition website_of :: "row \<Rightarrow> string" where
  "website_of row = strip (text_of (row_get row ''website''))"

definition phone_of :: "row \<Rightarrow> string" where
  "phone_of row = strip (text_of (py_or (row_get row ''phone'') (row_get row ''phone_number'')))"

definition photos_of :: "row \<Rightarrow> pyval" where
  "photos_of row = py_or (py_or (row_get row ''photos'') (row_get row ''photo_count'')) (PInt 0)"

definition category_of :: "row \<Rightarrow> string" where
  "category_of row = lower (text_of (row_get row ''category''))"




definition row_site :: row where
  \<comment> \<open>the third scenario of the tests: a local shop with a website that answers\<close>
  "row_site =
     [''business_name'' \<mapsto> PStr ''Local Tiles'', ''rating'' \<mapsto> PFloat (Fin 4),
      ''reviews'' \<mapsto> PInt 20, ''has_website'' \<mapsto> PBool True,
      ''website'' \<mapsto> PStr ''https://example.com'']"

definition site_awards :: "parse_result \<Rightarrow> soup \<Rightarrow> string \<Rightarrow> int" where
  \<comment> \<open>the five awards of the probe, as its docstring lists them\<close>
  "site_awards p sp html =
     (if scheme p = ''https'' then 4 else 0)
     + (if meta_viewport sp then 4 else 0)
     + (if meta_description sp then 3 else 0)
     + (if \<exists>h\<in>set (anchor_hrefs sp).
             sublist ''mailto:'' (lower h) \<or> sublist ''contact'' (lower h)
        then 4 else 0)
     + (if has_analytics html then 5 else 0)"


definition row_offline :: "rat \<Rightarrow> int \<Rightarrow> row" where
  \<comment> \<open>the second scenario of the tests, with the rating and the review count left open\<close>
  "row_offline r n =
     [''business_name'' \<mapsto> PStr ''Some Local Store'', ''rating'' \<mapsto> PFloat (Fin r),
      ''reviews'' \<mapsto> PInt n, ''has_website'' \<mapsto> PBool False]"


section \<open>Reading the record\<close>

lemma py_lower_text: "is_text v \<Longrightarrow> py_lower (py_or v (PStr [])) = Inr (lower (text_of v))"
  by (cases v) (auto simp: is_text_def py_or_def py_lower_def text_of_def lower_def)

lemma py_strip_text: "is_text v \<Longrightarrow> py_strip (py_or v (PStr [])) = Inr (strip (text_of v))"
  by (cases v) (auto simp: is_text_def py_or_def py_strip_def text_of_def strip_def)



lemma compute_lead_score_fields:
  assumes "text_fields_ok row"
  shows "compute_lead_score env row =
         score_fields env (name_of row) (rating_of row) (reviews_of row) (has_website_of row)
           (website_of row) (phone_of row) (photos_of row) (category_of row)"
proof -
  have n: "py_lower (py_or (row_get row ''business_name'') (PStr [])) = Inr (name_of row)"
    using assms by (simp add: text_fields_ok_def py_lower_text name_of_def)
  have w: "py_strip (py_or (row_get row ''website'') (PStr [])) = Inr (website_of row)"
    using assms by (simp add: text_fields_ok_def py_strip_text website_of_def)
  have p: "py_strip (py_or (py_or (row_get row ''phone'') (row_get row ''phone_number'')) (PStr []))
           = Inr (phone_of row)"
    using assms by (simp add: text_fields_ok_def py_strip_text phone_of_def)
  have c: "py_lower (py_or (row_get row ''category'') (PStr [])) = Inr (category_of row)"
    using assms by (simp add: text_fields_ok_def py_lower_text category_of_def)
  show ?thesis
    unfolding compute_lead_score_def Let_def n w p c
    by (simp add: rating_of_def reviews_of_def has_website_of_def photos_of_def)
qed











lemma sublist_nonempty: "sublist k s \<Longrightarrow> k \<noteq> [] \<Longrightarrow> s \<noteq> []"
  by auto


section \<open>The score is bounded\<close>

lemma clamp_score_Fin: "\<exists>q. clamp_score x = Fin q \<and> 0 \<le> q \<and> q \<le> 100"
  by (cases x) (auto simp: clamp_score_def py_max_def py_min_def)

lemma round_half_even_range:
  assumes "0 \<le> q" "q \<le> 100"
  shows "0 \<le> round_half_even q \<and> round_half_even q \<le> 100"
proof -
  let ?f = "\<lfloor>q\<rfloor>"
  have f0: "0 \<le> ?f" using assms(1) by simp
  have f100: "?f \<le> 100" using assms(2) by (simp add: floor_le_iff)
  show ?thesis
  proof (cases "?f = 100")
    case True
    then have "q - of_int ?f \<le> 0" using assms(2) by simp
    then have "q - of_int ?f < 1 / 2" by linarith
    then show ?thesis using True by (simp add: round_half_even_def Let_def)
  next
    case False
    then have "?f + 1 \<le> 100" using f100 by linarith
    then show ?thesis using f0 by (auto simp: round_half_even_def Let_def)
  qed
qed

lemma py_round_clamp_score:
  "\<exists>n. py_round (clamp_score x) = Inr n \<and> 0 \<le> n \<and> n \<le> 100"
proof -
  obtain q where q: "clamp_score x = Fin q" "0 \<le> q" "q \<le> 100"
    using clamp_score_Fin by blast
  then show ?thesis using round_half_even_range [of q] by (simp add: py_round_def)
qed

lemma brand_loop_Some:
  "brand_loop ks name website = Some r \<Longrightarrow>
     r = (0, reason_brand_name) \<or> r = (0, reason_brand_website)"
  by (induction ks) (auto split: if_splits)

lemma score_fields_range:
  assumes "score_fields env name rating reviews has_website website phone photos category
             = Inr (score, reason)"
  shows "0 \<le> score \<and> score \<le> 100"
proof (cases "brand_loop BRAND_KEYWORDS name website")
  case (Some r)
  then show ?thesis using assms brand_loop_Some [OF Some] by (auto simp: score_fields_def)
next
  case None
  obtain n where n:
    "py_round (clamp_score
        (accumulate env rating reviews has_website website phone photos category)) = Inr n"
    "0 \<le> n" "n \<le> 100"
    using py_round_clamp_score by blast
  show ?thesis using assms None n
    by (auto simp: score_fields_def split: sum.splits bool.splits)
qed

text \<open>
  C1. Whatever the record and the environment, a score that \<^verbatim>\<open>_compute_lead_score\<close> returns
  is an integer between 0 and 100: the accumulated total, be it finite, infinite or NaN, is
  clamped to a finite value in [0, 100] and rounded to an integer of the same range.
\<close>

theorem compute_lead_score_range:
  "(compute_lead_score env row = Inr (score, reason) \<longrightarrow> 0 \<le> score \<and> score \<le> 100)
   \<and> (\<exists>q. clamp_score acc = Fin q \<and> 0 \<le> q \<and> q \<le> 100
          \<and> py_round (clamp_score acc) = Inr (round_half_even q)
          \<and> 0 \<le> round_half_even q \<and> round_half_even q \<le> 100)"
proof
  show "compute_lead_score env row = Inr (score, reason) \<longrightarrow> 0 \<le> score \<and> score \<le> 100"
    unfolding compute_lead_score_def Let_def
    by (auto split: sum.splits dest: score_fields_range)
next
  obtain q where q: "clamp_score acc = Fin q" "0 \<le> q" "q \<le> 100"
    using clamp_score_Fin by blast
  then show "\<exists>q. clamp_score acc = Fin q \<and> 0 \<le> q \<and> q \<le> 100
          \<and> py_round (clamp_score acc) = Inr (round_half_even q)
          \<and> 0 \<le> round_half_even q \<and> round_half_even q \<le> 100"
    using round_half_even_range [of q] by (simp add: py_round_def)
qed

theorem compute_lead_score_range_witness:
  "compute_lead_score stub_env row_site = Inr (47, reason_computed)
   \<and> (0::int) \<le> 47 \<and> (47::int) \<le> 100"
proof -
  have h: "compute_lead_score stub_env row_site = Inr (47, reason_computed)"
    by code_simp
  from compute_lead_score_range [of stub_env row_site 47 reason_computed] h
  show ?thesis by simp
qed

section \<open>Disqualification\<close>

lemma disqualified_reasons:
  "prefix ''DISQUALIFIED'' reason_brand_name" "prefix ''DISQUALIFIED'' reason_brand_website"
  "prefix ''DISQUALIFIED'' reason_offline" "\<not> prefix ''DISQUALIFIED'' reason_computed"
  by (simp_all add: reason_brand_name_def reason_brand_website_def reason_offline_def
        reason_computed_def)








section \<open>Classification\<close>





text \<open>
  C5. When the scorer returns score 0 with a reason that starts with DISQUALIFIED, the
  classifier returns that reason as category and as explanation, with the score 0, and
  applies no threshold.
\<close>

theorem disqualification_propagates:
  assumes "compute_lead_score env row = Inr (0, reason)"
    and "prefix ''DISQUALIFIED'' reason"
  shows "classify_lead env row = Inr (reason, reason, 0)"
  using assms by (simp add: classify_lead_def)

theorem disqualification_propagates_witness:
  "compute_lead_score stub_env (row_offline (43 / 10) 60) = Inr (0, reason_offline)
   \<and> prefix ''DISQUALIFIED'' reason_offline
   \<and> classify_lead stub_env (row_offline (43 / 10) 60) = Inr (reason_offline, reason_offline, 0)"
proof -
  have a: "compute_lead_score stub_env (row_offline (43 / 10) 60) = Inr (0, reason_offline)"
    by code_simp
  have b: "prefix ''DISQUALIFIED'' reason_offline" by (rule disqualified_reasons)
  from disqualification_propagates [OF a b] a b show ?thesis by simp
qed

lemma float_overflow_bound_pos: "1 < float_overflow_bound"
proof -
  have "(2::int) ^ 970 * 2 \<le> 2 ^ 970 * 2 ^ 54" by simp
  then have "(2::int) ^ 971 \<le> 2 ^ 1024" by (simp add: power_add [symmetric])
  moreover have "(2::int) ^ 971 = 2 ^ 970 + 2 ^ 970" by simp
  moreover have "(1::int) < 2 ^ 970" by simp
  ultimately show ?thesis unfolding float_overflow_bound_def by linarith
qed

lemma int_to_float_0: "int_to_float 0 = Inr (Fin 0)"
  using float_overflow_bound_pos by (simp add: int_to_float_def)

lemma compute_lead_score_empty: "compute_lead_score env Map.empty = Inr (0, reason_computed)"
proof -
  have t: "text_fields_ok Map.empty"
    by (simp add: text_fields_ok_def row_get_def is_text_def py_or_def)
  have b: "brand_loop BRAND_KEYWORDS [] [] = None"
    by (simp add: BRAND_KEYWORDS_def)
  have a: "accumulate env (PInt 0) (PInt 0) False [] [] (PInt 0) [] = Fin 0"
    by (simp add: accumulate_def add_website_def add_rating_def rating_term_def py_float_def
          int_to_float_0 add_reviews_def reviews_term_def py_min_def add_phone_def add_photos_def
          photos_term_def py_int_def add_category_def)
  have c: "py_round (clamp_score (Fin 0)) = Inr 0"
    by (simp add: clamp_score_def py_min_def py_max_def py_round_def round_half_even_def)
  show ?thesis
    unfolding compute_lead_score_fields [OF t]
    by (simp add: score_fields_def name_of_def website_of_def rating_of_def reviews_of_def
          has_website_of_def phone_of_def photos_of_def category_of_def row_get_def py_or_def
          text_of_def lower_def strip_def b offline_check_def a c)
qed

text \<open>
  C10. A score of 0 alone is not a disqualification: when the reason does not start with
  DISQUALIFIED the classifier takes the threshold branch and returns the low priority
  category. The empty record is such a record, in every environment: it scores 0 with the
  ordinary reason and is classified as low priority.
\<close>

theorem zero_score_not_disqualified:
  "(compute_lead_score env row = Inr (0, reason) \<and> \<not> prefix ''DISQUALIFIED'' reason \<longrightarrow>
      classify_lead env row = Inr (category_low, explanation ''Low'' 0 reason, 0))
   \<and> classify_lead env Map.empty
       = Inr (category_low, ''Low opportunity (score=0). Score computed from maps signals'', 0)
   \<and> \<not> prefix ''DISQUALIFIED'' category_low"
proof -
  have e: "explanation ''Low'' 0 reason_computed
           = ''Low opportunity (score=0). Score computed from maps signals''"
    by code_simp
  have "classify_lead env Map.empty = Inr (category_low, explanation ''Low'' 0 reason_computed, 0)"
    by (simp add: classify_lead_def compute_lead_score_empty disqualified_reasons)
  moreover have "\<not> prefix ''DISQUALIFIED'' category_low"
    by (simp add: category_low_def)
  ultimately show ?thesis using e by (auto simp: classify_lead_def)
qed

theorem zero_score_not_disqualified_witness:
  "compute_lead_score stub_env Map.empty = Inr (0, reason_computed)
   \<and> \<not> prefix ''DISQUALIFIED'' reason_computed
   \<and> classify_lead stub_env Map.empty
       = Inr (category_low, explanation ''Low'' 0 reason_computed, 0)"
proof -
  have a: "compute_lead_score stub_env Map.empty = Inr (0, reason_computed)"
    by (rule compute_lead_score_empty)
  have b: "\<not> prefix ''DISQUALIFIED'' reason_computed" by (rule disqualified_reasons)
  from zero_score_not_disqualified [of stub_env Map.empty reason_computed] a b
  show ?thesis by simp
qed

section \<open>The probe never raises\<close>

lemma contact_loop_iff:
  "contact_loop hrefs
   = (\<exists>h\<in>set hrefs. sublist ''mailto:'' (lower h) \<or> sublist ''contact'' (lower h))"
  by (induction hrefs) (auto simp: Let_def)

lemma site_awards_range: "0 \<le> site_awards p sp html \<and> site_awards p sp html \<le> 20"
  by (simp add: site_awards_def)

lemma quick_site_check_try_ok:
  assumes "urlparse env url = Inr p" "requests_get env url timeout = Inr resp"
    and "status_code resp = 200" "BeautifulSoup env (resp_text resp) = Inr sp"
  shows "quick_site_check_try env url timeout
         = Inr (min (site_awards p sp (resp_text resp)) 20,
                SiteScore (site_awards p sp (resp_text resp)))"
  using assms
  by (simp add: quick_site_check_try_def Let_def contact_loop_iff site_awards_def add.assoc)

lemma quick_site_check_try_range:
  "quick_site_check_try env url timeout = Inr (s, d) \<Longrightarrow> 0 \<le> s \<and> s \<le> 20"
  unfolding quick_site_check_try_def Let_def
  by (auto split: sum.splits if_splits)

lemma quick_site_check_returns:
  "\<exists>s d. quick_site_check env url timeout = Inr (s, d)"
  unfolding quick_site_check_def
  by (cases "quick_site_check_try env url timeout") auto

text \<open>
  C6. For every environment, URL and timeout \<^verbatim>\<open>quick_site_check\<close> returns a pair and never
  an exception, with a score between 0 and 20. The score is 0 when web checks are
  unavailable or the URL is empty, when \<^verbatim>\<open>urlparse\<close>, the fetch (a timeout is such an
  exception) or the HTML parser raises, and when the status is not 200. On a page that is
  served with status 200 the score is the sum of the five awards (4 for https, 4 for a
  viewport meta element, 3 for a meta description, 4 for a contact link, 5 for an analytics
  marker) capped at 20, a cap that the sum never exceeds.
\<close>

theorem quick_site_check_safe:
  "\<exists>s d. quick_site_check env url timeout = Inr (s, d) \<and> 0 \<le> s \<and> s \<le> 20
     \<and> (\<not> webcheck_available env \<or> url = [] \<longrightarrow> s = 0 \<and> d = NoDetails)
     \<and> (\<forall>e. urlparse env url = Inl e \<longrightarrow> s = 0)
     \<and> (\<forall>e. requests_get env url timeout = Inl e \<longrightarrow> s = 0)
     \<and> (\<forall>resp. requests_get env url timeout = Inr resp \<and> status_code resp \<noteq> 200 \<longrightarrow> s = 0)
     \<and> (\<forall>resp e. requests_get env url timeout = Inr resp
            \<and> BeautifulSoup env (resp_text resp) = Inl e \<longrightarrow> s = 0)
     \<and> (\<forall>p resp sp. webcheck_available env \<and> url \<noteq> [] \<and> urlparse env url = Inr p
            \<and> requests_get env url timeout = Inr resp \<and> status_code resp = 200
            \<and> BeautifulSoup env (resp_text resp) = Inr sp \<longrightarrow>
            s = min (site_awards p sp (resp_text resp)) 20
            \<and> s = site_awards p sp (resp_text resp))"
proof -
  obtain s d where sd: "quick_site_check env url timeout = Inr (s, d)"
    using quick_site_check_returns by blast
  have range: "0 \<le> s \<and> s \<le> 20"
    using sd quick_site_check_try_range [of env url timeout s d]
    by (auto simp: quick_site_check_def split: if_splits sum.splits)
  have off: "\<not> webcheck_available env \<or> url = [] \<longrightarrow> s = 0 \<and> d = NoDetails"
    using sd by (auto simp: quick_site_check_def)
  have perr: "\<forall>e. urlparse env url = Inl e \<longrightarrow> s = 0"
    using sd by (auto simp: quick_site_check_def quick_site_check_try_def split: if_splits)
  have gerr: "\<forall>e. requests_get env url timeout = Inl e \<longrightarrow> s = 0"
    using sd
    by (auto simp: quick_site_check_def quick_site_check_try_def Let_def
          split: if_splits sum.splits)
  have status: "\<forall>resp. requests_get env url timeout = Inr resp \<and> status_code resp \<noteq> 200
                  \<longrightarrow> s = 0"
    using sd
    by (auto simp: quick_site_check_def quick_site_check_try_def Let_def
          split: if_splits sum.splits)
  have serr: "\<forall>resp e. requests_get env url timeout = Inr resp
            \<and> BeautifulSoup env (resp_text resp) = Inl e \<longrightarrow> s = 0"
    using sd
    by (auto simp: quick_site_check_def quick_site_check_try_def Let_def
          split: if_splits sum.splits)
  have ok: "\<forall>p resp sp. webcheck_available env \<and> url \<noteq> [] \<and> urlparse env url = Inr p
            \<and> requests_get env url timeout = Inr resp \<and> status_code resp = 200
            \<and> BeautifulSoup env (resp_text resp) = Inr sp \<longrightarrow>
            s = min (site_awards p sp (resp_text resp)) 20
            \<and> s = site_awards p sp (resp_text resp)"
  proof (intro allI impI, elim conjE)
    fix p resp sp
    assume a: "webcheck_available env" "url \<noteq> []" "urlparse env url = Inr p"
      "requests_get env url timeout = Inr resp" "status_code resp = 200"
      "BeautifulSoup env (resp_text resp) = Inr sp"
    have "s = min (site_awards p sp (resp_text resp)) 20"
      using sd a(1,2) by (simp add: quick_site_check_def quick_site_check_try_ok [OF a(3-6)])
    then show "s = min (site_awards p sp (resp_text resp)) 20
            \<and> s = site_awards p sp (resp_text resp)"
      using site_awards_range [of p sp "resp_text resp"] by simp
  qed
  from sd range off perr gerr status serr ok show ?thesis by blast
qed

theorem quick_site_check_safe_witness:
  "quick_site_check stub_env ''https://example.com'' 5 = Inr (17, SiteScore 17)
   \<and> quick_site_check stub_env ''https://example.com/missing'' 5 = Inr (0, HttpStatus 404)
   \<and> (\<exists>d. quick_site_check stub_env ''https://example.org'' 5 = Inr (0, d))"
proof -
  have a: "quick_site_check stub_env ''https://example.com'' 5 = Inr (17, SiteScore 17)"
    by code_simp
  have b: "quick_site_check stub_env ''https://example.com/missing'' 5 = Inr (0, HttpStatus 404)"
    by code_simp
  have g: "requests_get stub_env ''https://example.org'' 5 = Inl (OtherError ''ConnectionError'')"
    by code_simp
  from quick_site_check_safe [of stub_env "''https://example.org''" 5] g
  have "\<exists>d. quick_site_check stub_env ''https://example.org'' 5 = Inr (0, d)" by auto
  with a b show ?thesis by simp
qed

section \<open>The link filter\<close>





section \<open>Where the scorer returns\<close>








section \<open>Out-of-range numbers\<close>

















end
